theory Spec2Isabelle
  imports Main "HOL-Library.Word"
begin

section \<open>Values shared by the granter and the verifier\<close>

text \<open>
  The package \<^verbatim>\<open>auth\<close> (granter.go and verifier.go of sdk-go) is modelled function by
  function. Go's \<^verbatim>\<open>int64\<close> is a 64-bit word read as two's complement: \<open>+\<close> and \<open>-\<close>
  wrap, and the comparisons of the source are the signed ones (\<open>word_sle\<close>,
  \<open>word_sless\<close>). Go strings are byte strings.
\<close>

type_synonym int64 = "64 word"

text \<open>
  Errors are values. \<open>New\<close> is \<^verbatim>\<open>errors.New\<close>, \<open>Errorf\<close> is \<^verbatim>\<open>fmt.Errorf\<close> with its format
  string and arguments kept apart, \<open>Wrap\<close> is \<^verbatim>\<open>errors.Wrap(err, msg)\<close>, and \<open>External\<close> is an
  error produced by a library the package calls (net/http, encoding/json, the PEM parser).
\<close>

datatype fmt_arg = S string | D int

datatype error =
    New string
  | Errorf string "fmt_arg list"
  | Wrap error string
  | External string

text \<open>
  JSON documents are modelled by the value they spell: \<^verbatim>\<open>json.Marshal\<close> produces such a
  value and \<^verbatim>\<open>json.Unmarshal\<close> consumes one. \<open>JString s\<close> is a string literal whose content,
  escapes resolved, is the byte string \<open>s\<close>.
\<close>

datatype json =
    JNull
  | JBool bool
  | JNumber int
  | JString string
  | JArray "json list"
  | JObject "(string \<times> json) list"

text \<open>
  encoding/json writes and reads Go strings as UTF-8 text: the encoder and the decoder both
  walk a string with \<^verbatim>\<open>utf8.DecodeRune\<close> and put U+FFFD in the place of every byte that
  does not start a well-formed sequence. \<open>runeLen\<close> is the width of the well-formed
  sequence at the head of a string, by the first byte and the range accepted for the
  second (\<open>0\<close>: there is none, where Go reports \<^verbatim>\<open>RuneError\<close> with width 1);
  \<open>coerceFrom n\<close> copies \<open>n\<close> bytes that are the rest of a sequence already accepted and
  then goes on rune by rune; \<open>ValidString\<close> is \<^verbatim>\<open>utf8.ValidString\<close>.
\<close>

definition byte :: "char \<Rightarrow> nat" where
  "byte c = of_char c"

definition isCont :: "char \<Rightarrow> bool" where
  "isCont c = (0x80 \<le> byte c \<and> byte c \<le> 0xBF)"

definition accept2 :: "nat \<Rightarrow> char \<Rightarrow> bool" where
  "accept2 x c =
     ((if x = 0xE0 then 0xA0 else if x = 0xF0 then 0x90 else 0x80) \<le> byte c
      \<and> byte c \<le> (if x = 0xED then 0x9F else if x = 0xF4 then 0x8F else 0xBF))"

fun runeLen :: "string \<Rightarrow> nat" where
  "runeLen [] = 0"
| "runeLen (b0 # bs) =
     (let x = byte b0
      in if x < 0x80 then 1
         else if x < 0xC2 then 0
         else if x \<le> 0xDF then
           (case bs of b1 # r \<Rightarrow> if isCont b1 then 2 else 0 | [] \<Rightarrow> 0)
         else if x \<le> 0xEF then
           (case bs of
              b1 # b2 # r \<Rightarrow> if accept2 x b1 \<and> isCont b2 then 3 else 0
            | _ \<Rightarrow> 0)
         else if x \<le> 0xF4 then
           (case bs of
              b1 # b2 # b3 # r \<Rightarrow>
                if accept2 x b1 \<and> isCont b2 \<and> isCont b3 then 4 else 0
            | _ \<Rightarrow> 0)
         else 0)"

text \<open>U+FFFD in UTF-8.\<close>

definition replacementChar :: string where
  "replacementChar = [CHR 0xEF, CHR 0xBF, CHR 0xBD]"

fun coerceFrom :: "nat \<Rightarrow> string \<Rightarrow> string" where
  "coerceFrom n [] = []"
| "coerceFrom (Suc n) (b # bs) = b # coerceFrom n bs"
| "coerceFrom 0 (b # bs) =
     (case runeLen (b # bs) of
        0 \<Rightarrow> replacementChar @ coerceFrom 0 bs
      | Suc k \<Rightarrow> b # coerceFrom k bs)"

definition ToValidUTF8 :: "string \<Rightarrow> string" where
  "ToValidUTF8 s = coerceFrom 0 s"

fun validFrom :: "nat \<Rightarrow> string \<Rightarrow> bool" where
  "validFrom n [] = True"
| "validFrom (Suc n) (b # bs) = validFrom n bs"
| "validFrom 0 (b # bs) =
     (case runeLen (b # bs) of 0 \<Rightarrow> False | Suc k \<Rightarrow> validFrom k bs)"

definition ValidString :: "string \<Rightarrow> bool" where
  "ValidString s = validFrom 0 s"

record http_Response =
  StatusCode :: int
  Body :: string

text \<open>
  What a call leaves behind besides its result: reads and writes of the cache, entering
  \<^verbatim>\<open>singleflight.Group.Do\<close> for a key, outbound HTTP requests, and the signature check of
  the JWT library.
\<close>

datatype event =
    CacheRead string
  | CacheWrite string
  | SingleflightDo string
  | HTTPPost string string json
  | HTTPGet string
  | VerifySignature

fun is_http :: "event \<Rightarrow> bool" where
  "is_http (HTTPPost url ctype payload) = True"
| "is_http (HTTPGet url) = True"
| "is_http e = False"

text \<open>
  \<^verbatim>\<open>strings.TrimRight(s, cutset)\<close>: \<open>s\<close> without its trailing characters that occur in
  \<open>cutset\<close>. The package only calls it with the cutset \<^verbatim>\<open>"/"\<close>, a single ASCII byte.
\<close>

definition TrimRight :: "string \<Rightarrow> string \<Rightarrow> string" where
  "TrimRight s cutset = rev (dropWhile (\<lambda>c. c \<in> set cutset) (rev s))"

section \<open>Granter\<close>

record cachedToken =
  jwt :: string
  expiration :: int64

text \<open>
  The struct \<^verbatim>\<open>Granter\<close>. The field \<open>cache\<close> is a Go map that may be \<^verbatim>\<open>nil\<close> (\<open>None\<close>).
  \<^verbatim>\<open>HTTPClient\<close> is part of the environment below; the mutex and the singleflight group
  carry no data in a run without concurrent callers.
\<close>

record Granter =
  ClientID :: string
  ClientSecret :: string
  TenantURL :: string
  ExpirationMargin :: int64
  cache :: "(string \<rightharpoonup> cachedToken) option"

record accessTokenResponse =
  AccessToken :: string
  TokenType :: string
  ExpiresIn :: int64

text \<open>
  The world one call of \<^verbatim>\<open>GetToken\<close> runs in: the HTTP client's \<^verbatim>\<open>Post\<close> (a transport error
  or a response), the JSON decoder applied to the response body, and the two readings of
  \<^verbatim>\<open>time.Now().Unix()\<close>: the one in \<^verbatim>\<open>readToken\<close> and the one taken after the response
  has been decoded.
\<close>

record granter_env =
  Post :: "string \<Rightarrow> string \<Rightarrow> json \<Rightarrow> error + http_Response"
  DecodeAccessToken :: "string \<Rightarrow> error + accessTokenResponse"
  NowRead :: int64
  NowFetch :: int64

definition readToken :: "Granter \<Rightarrow> int64 \<Rightarrow> string \<Rightarrow> string \<times> bool" where
  "readToken g now resource =
     (case cache g of
        None \<Rightarrow> ([], False)
      | Some m \<Rightarrow>
          (case m resource of
             None \<Rightarrow> ([], False)
           | Some tc \<Rightarrow>
               if word_sle now (expiration tc) then (jwt tc, True) else ([], False)))"

definition writeToken :: "Granter \<Rightarrow> string \<Rightarrow> string \<Rightarrow> int64 \<Rightarrow> Granter" where
  "writeToken g resource tok expiresOn =
     (let m = (case cache g of None \<Rightarrow> Map.empty | Some m \<Rightarrow> m)
      in g\<lparr>cache := Some (m(resource \<mapsto>
             \<lparr>jwt = tok, expiration = expiresOn - ExpirationMargin g\<rparr>))\<rparr>)"

definition ResetCache :: "Granter \<Rightarrow> Granter" where
  "ResetCache g = g\<lparr>cache := None\<rparr>"

text \<open>
  The request body: \<^verbatim>\<open>json.Marshal\<close> of the string map, keys in sorted order, values
  written as UTF-8 text.
\<close>

definition tokenPayload :: "Granter \<Rightarrow> string \<Rightarrow> json" where
  "tokenPayload g resource =
     JObject [(''audience'', JString (ToValidUTF8 resource)),
              (''client_id'', JString (ToValidUTF8 (ClientID g))),
              (''client_secret'', JString (ToValidUTF8 (ClientSecret g))),
              (''grant_type'', JString ''client_credentials'')]"

definition tokenURL :: "Granter \<Rightarrow> string" where
  "tokenURL g = TrimRight (TenantURL g) ''/'' @ ''/oauth/token''"

text \<open>The function literal that \<^verbatim>\<open>GetToken\<close> hands to \<^verbatim>\<open>tokenRequestGroup.Do\<close>.\<close>

definition fetchToken ::
  "granter_env \<Rightarrow> Granter \<Rightarrow> string \<Rightarrow> (error + string) \<times> Granter \<times> event list" where
  "fetchToken env g resource =
     (if ClientID g = [] \<or> ClientSecret g = [] then
        (Inl (New ''ClientID and ClientSecret cannot be empty''), g, [])
      else if TenantURL g = [] then
        (Inl (New ''TenantURL cannot be empty''), g, [])
      else
        let payload = tokenPayload g resource;
            url = tokenURL g;
            sent = [HTTPPost url ''application/json'' payload]
        in case Post env url ''application/json'' payload of
             Inl err \<Rightarrow> (Inl (Wrap err ''unable to fetch token''), g, sent)
           | Inr resp \<Rightarrow>
               if StatusCode resp < 200 \<or> StatusCode resp \<ge> 400 then
                 (Inl (Wrap (Errorf ''received %d status code'' [D (StatusCode resp)])
                        ''unable to fetch token''), g, sent)
               else
                 (case DecodeAccessToken env (Body resp) of
                    Inl err \<Rightarrow> (Inl (Wrap err ''bad Access Token Response''), g, sent)
                  | Inr atr \<Rightarrow>
                      let expiresOn = NowFetch env + ExpiresIn atr
                      in (Inr (AccessToken atr),
                          writeToken g resource (AccessToken atr) expiresOn,
                          sent @ [CacheWrite resource])))"

text \<open>
  \<^verbatim>\<open>singleflight.Group.Do(key, fn)\<close> for a caller that finds no call in flight for \<open>key\<close>:
  \<open>fn\<close> runs once in the caller and its outcome is returned.
\<close>

definition Do ::
  "string \<Rightarrow> ('s \<Rightarrow> (error + 'a) \<times> 's \<times> event list) \<Rightarrow> 's \<Rightarrow> (error + 'a) \<times> 's \<times> event list" where
  "Do key fn s = (case fn s of (r, s', evs) \<Rightarrow> (r, s', SingleflightDo key # evs))"

definition GetToken ::
  "granter_env \<Rightarrow> Granter \<Rightarrow> string \<Rightarrow> (error + string) \<times> Granter \<times> event list" where
  "GetToken env g resource =
     (if resource = [] then (Inl (New ''resource cannot be empty''), g, [])
      else
        case readToken g (NowRead env) resource of
          (tok, True) \<Rightarrow> (Inr tok, g, [CacheRead resource])
        | (tok, False) \<Rightarrow>
            (case Do resource (\<lambda>g. fetchToken env g resource) g of
               (r, g', evs) \<Rightarrow> (r, g', CacheRead resource # evs)))"

text \<open>
  The granters a program can hold: a struct literal has a \<^verbatim>\<open>nil\<close> cache, the unexported
  cache changes only through \<^verbatim>\<open>GetToken\<close> and \<^verbatim>\<open>ResetCache\<close>, and the exported fields may be
  assigned at any time.
\<close>

inductive reachable :: "Granter \<Rightarrow> bool" where
  fresh: "cache g = None \<Longrightarrow> reachable g"
| get: "reachable g \<Longrightarrow> GetToken env g resource = (r, g', evs) \<Longrightarrow> reachable g'"
| reset: "reachable g \<Longrightarrow> reachable (ResetCache g)"
| assign: "reachable g \<Longrightarrow> cache g' = cache g \<Longrightarrow> reachable g'"

section \<open>Verifier\<close>

text \<open>\<^verbatim>\<open>*rsa.PublicKey\<close>: modulus and public exponent.\<close>

record rsa_PublicKey =
  N :: int
  E :: int

record keyCache =
  key :: rsa_PublicKey
  expiration :: int64

record Verifier =
  Resource :: string
  TenantURL :: string
  ExpirationMargin :: int64
  cache :: "(string \<rightharpoonup> keyCache) option"

text \<open>
  A Go slice is \<^verbatim>\<open>nil\<close> (\<open>None\<close>) or holds elements; \<open>elems\<close> is what \<^verbatim>\<open>range\<close> and \<^verbatim>\<open>len\<close>
  see. \<^verbatim>\<open>AudienceList\<close> is \<^verbatim>\<open>[]string\<close>.
\<close>

type_synonym AudienceList = "string list option"

definition elems :: "'a list option \<Rightarrow> 'a list" where
  "elems xs = (case xs of None \<Rightarrow> [] | Some l \<Rightarrow> l)"

text \<open>
  \<^verbatim>\<open>Claims\<close>, with the fields of the embedded \<^verbatim>\<open>jwt.StandardClaims\<close> that are promoted to it
  (its own \<^verbatim>\<open>Audience\<close> hides the embedded one).
\<close>

record Claims =
  Scope :: string
  Audience :: AudienceList
  Email :: string
  EmployeeId :: string
  FirstName :: string
  LastName :: string
  ExpiresAt :: int64
  Id :: string
  IssuedAt :: int64
  Issuer :: string
  NotBefore :: int64
  Subject :: string

text \<open>
  \<^verbatim>\<open>jwt.Token\<close> as the key function sees it: the header map and the claims, an interface
  value that holds a \<^verbatim>\<open>*Claims\<close> or something else.
\<close>

datatype jwt_Claims = CustomClaims Claims | OtherClaims

record jwt_Token =
  Raw :: string
  Header :: "string \<rightharpoonup> json"
  Claims :: jwt_Claims

record jwk =
  KeyID :: string
  CertificateChain :: "string list"

text \<open>
  The world one key resolution runs in: the HTTP client's \<^verbatim>\<open>Get\<close>, the JSON decoder
  applied to the JWKS body (the list under \<^verbatim>\<open>keys\<close>), \<^verbatim>\<open>jwt.ParseRSAPublicKeyFromPEM\<close>, and
  the readings of \<^verbatim>\<open>time.Now().Unix()\<close> in \<^verbatim>\<open>readPublicKey\<close> and in \<^verbatim>\<open>writePublicKey\<close>.
\<close>

record verifier_env =
  Get :: "string \<Rightarrow> error + http_Response"
  DecodeKeys :: "string \<Rightarrow> error + jwk list"
  ParseRSAPublicKeyFromPEM :: "string \<Rightarrow> error + rsa_PublicKey"
  NowLookup :: int64
  NowWrite :: int64

text \<open>\<^verbatim>\<open>readPublicKey\<close> returns \<^verbatim>\<open>(key, true)\<close> (\<open>Some key\<close>) or \<^verbatim>\<open>(nil, false)\<close> (\<open>None\<close>).\<close>

definition readPublicKey :: "Verifier \<Rightarrow> int64 \<Rightarrow> string \<Rightarrow> rsa_PublicKey option" where
  "readPublicKey v now kid =
     (case cache v of
        None \<Rightarrow> None
      | Some m \<Rightarrow>
          (case m kid of
             None \<Rightarrow> None
           | Some c \<Rightarrow> if word_sless now (expiration c) then Some (key c) else None))"

definition writePublicKey :: "Verifier \<Rightarrow> int64 \<Rightarrow> string \<Rightarrow> rsa_PublicKey \<Rightarrow> Verifier" where
  "writePublicKey v now kid pk =
     (let m = (case cache v of None \<Rightarrow> Map.empty | Some m \<Rightarrow> m)
      in v\<lparr>cache := Some (m(kid \<mapsto>
             \<lparr>key = pk, expiration = now + 86400 - ExpirationMargin v\<rparr>))\<rparr>)"

text \<open>\<^verbatim>\<open>Verifier.ResetCache\<close>; the plain name is the granter's method above.\<close>

definition ResetKeyCache :: "Verifier \<Rightarrow> Verifier" where
  "ResetKeyCache v = v\<lparr>cache := None\<rparr>"

fun verifyAudience :: "Verifier \<Rightarrow> string list \<Rightarrow> error option" where
  "verifyAudience v [] =
     Some (Errorf (''bad token: missing '%s' audience'') [S (Resource v)])"
| "verifyAudience v (audience # audiences) =
     (if audience = Resource v then None else verifyAudience v audiences)"

definition pemCertificate :: "string \<Rightarrow> string" where
  "pemCertificate certString =
     ''-----BEGIN CERTIFICATE-----'' @ [CHR 0x0A] @ certString @ [CHR 0x0A]
       @ ''-----END CERTIFICATE-----''"

text \<open>
  The loop of \<^verbatim>\<open>getKey\<close> over \<^verbatim>\<open>body.Keys\<close>, with the \<^verbatim>\<open>return\<close> that follows it as the
  empty case.
\<close>

fun scanKeys ::
  "verifier_env \<Rightarrow> Verifier \<Rightarrow> string \<Rightarrow> jwk list
     \<Rightarrow> (error + rsa_PublicKey) \<times> Verifier \<times> event list" where
  "scanKeys env v kid [] = (Inl (New (''no key for kid: '' @ kid)), v, [])"
| "scanKeys env v kid (k # ks) =
     (if KeyID k = kid then
        (case CertificateChain k of
           [] \<Rightarrow> (Inl (New ''missing certificate chain''), v, [])
         | certString # rest \<Rightarrow>
             (case ParseRSAPublicKeyFromPEM env (pemCertificate certString) of
                Inl err \<Rightarrow> (Inl (Wrap err ''unable to parse public key''), v, [])
              | Inr pk \<Rightarrow>
                  (Inr pk, writePublicKey v (NowWrite env) kid pk, [CacheWrite kid])))
      else scanKeys env v kid ks)"

definition keyURL :: "Verifier \<Rightarrow> string" where
  "keyURL v = TrimRight (TenantURL v) ''/'' @ ''/.well-known/jwks.json''"

text \<open>The function literal that \<^verbatim>\<open>getKey\<close> hands to \<^verbatim>\<open>requestGroup.Do\<close>.\<close>

definition fetchKey ::
  "verifier_env \<Rightarrow> Verifier \<Rightarrow> string
     \<Rightarrow> (error + rsa_PublicKey) \<times> Verifier \<times> event list" where
  "fetchKey env v kid =
     (let sent = [HTTPGet (keyURL v)]
      in case Get env (keyURL v) of
           Inl err \<Rightarrow> (Inl (Wrap err ''error fetching keys from Auth0''), v, sent)
         | Inr resp \<Rightarrow>
             if StatusCode resp < 200 \<or> StatusCode resp \<ge> 400 then
               (Inl (Errorf ''error fetching keys from Auth0: received %d status code''
                      [D (StatusCode resp)]), v, sent)
             else
               (case DecodeKeys env (Body resp) of
                  Inl err \<Rightarrow> (Inl err, v, sent)
                | Inr keys \<Rightarrow>
                    (case scanKeys env v kid keys of
                       (r, v', evs) \<Rightarrow> (r, v', sent @ evs))))"

definition getKey ::
  "verifier_env \<Rightarrow> Verifier \<Rightarrow> string
     \<Rightarrow> (error + rsa_PublicKey) \<times> Verifier \<times> event list" where
  "getKey env v kid =
     (case readPublicKey v (NowLookup env) kid of
        Some pk \<Rightarrow> (Inr pk, v, [CacheRead kid])
      | None \<Rightarrow>
          (case Do kid (\<lambda>v. fetchKey env v kid) v of
             (r, v', evs) \<Rightarrow> (r, v', CacheRead kid # evs)))"

definition expectedIssuer :: "Verifier \<Rightarrow> string" where
  "expectedIssuer v = TrimRight (TenantURL v) ''/'' @ ''/''"

definition issuerFormat :: string where
  "issuerFormat = ''bad token: issuer is '%s' when it should be '%s'' @ [CHR 0x27]"

definition keyFunc ::
  "verifier_env \<Rightarrow> Verifier \<Rightarrow> jwt_Token
     \<Rightarrow> (error + rsa_PublicKey) \<times> Verifier \<times> event list" where
  "keyFunc env v token =
     (case Claims token of
        OtherClaims \<Rightarrow> (Inl (New ''unable to parse claims''), v, [])
      | CustomClaims claims \<Rightarrow>
          (case verifyAudience v (elems (Audience claims)) of
             Some err \<Rightarrow> (Inl err, v, [])
           | None \<Rightarrow>
               let issuer = expectedIssuer v
               in if Issuer claims = [] \<or> Issuer claims \<noteq> issuer then
                    (Inl (Errorf issuerFormat [S (Issuer claims), S issuer]), v, [])
                  else
                    (case Header token ''kid'' of
                       Some (JString kid) \<Rightarrow>
                         (case getKey env v kid of
                            (Inl err, v', evs) \<Rightarrow>
                              (Inl (Wrap err ''unable to get public key''), v', evs)
                          | (Inr pk, v', evs) \<Rightarrow> (Inr pk, v', evs))
                     | _ \<Rightarrow> (Inl (New ''unable to get kid header from token''), v, []))))"

text \<open>
  The JWT library's two steps around the key function: decoding the three segments into
  header and claims without any check, and checking the signature of a decoded token
  with a key (\<open>None\<close>: the signature verifies). \<^verbatim>\<open>VerifyToken\<close> hands the library a
  \<^verbatim>\<open>&Claims{}\<close> to decode into, so the claims of the token it decodes are a \<^verbatim>\<open>*Claims\<close>.
\<close>

record jwt_Parser =
  ParseUnverified :: "string \<Rightarrow> error + jwt_Token"
  Verify :: "jwt_Token \<Rightarrow> rsa_PublicKey \<Rightarrow> error option"

text \<open>
  Modelled from the spec: \<^verbatim>\<open>jwt.ParseWithClaims\<close> of github.com/dgrijalva/jwt-go, which is
  not among the sources. It parses the token's header and claims, resolves the signing key
  through the key-lookup callback, and only after the key is resolved checks the
  signature with it; a structurally invalid token or a bad signature is an error, and so
  is an error of the callback, which is passed on as it is.
\<close>

definition ParseWithClaims ::
  "jwt_Parser \<Rightarrow> string
     \<Rightarrow> (Verifier \<Rightarrow> jwt_Token \<Rightarrow> (error + rsa_PublicKey) \<times> Verifier \<times> event list)
     \<Rightarrow> Verifier \<Rightarrow> (error + jwt_Token) \<times> Verifier \<times> event list" where
  "ParseWithClaims p tokenString kf v =
     (case ParseUnverified p tokenString of
        Inl err \<Rightarrow> (Inl err, v, [])
      | Inr token \<Rightarrow>
          (case kf v token of
             (Inl err, v', evs) \<Rightarrow> (Inl err, v', evs)
           | (Inr pk, v', evs) \<Rightarrow>
               (case Verify p token pk of
                  Some err \<Rightarrow> (Inl err, v', evs @ [VerifySignature])
                | None \<Rightarrow> (Inr token, v', evs @ [VerifySignature]))))"

text \<open>The package's own \<^verbatim>\<open>Token\<close>, the result of \<^verbatim>\<open>VerifyToken\<close>.\<close>

record Token =
  Raw :: string
  Claims :: Claims
  rawClaims :: "(string \<rightharpoonup> json) option"

definition VerifyToken ::
  "jwt_Parser \<Rightarrow> verifier_env \<Rightarrow> Verifier \<Rightarrow> string
     \<Rightarrow> (error + Token) \<times> Verifier \<times> event list" where
  "VerifyToken p env v tokenString =
     (case ParseWithClaims p tokenString (keyFunc env) v of
        (Inl err, v', evs) \<Rightarrow> (Inl err, v', evs)
      | (Inr parsed, v', evs) \<Rightarrow>
          (case jwt_Token.Claims parsed of
             OtherClaims \<Rightarrow> (Inl (New ''unable to parse claims''), v', evs)
           | CustomClaims claims \<Rightarrow>
               (Inr \<lparr>Raw = jwt_Token.Raw parsed, Claims = claims, rawClaims = None\<rparr>,
                v', evs)))"

section \<open>The JSON form of an audience list\<close>

text \<open>
  \<^verbatim>\<open>json.Marshal\<close> of a string and of a string slice (\<^verbatim>\<open>nil\<close> is written \<^verbatim>\<open>null\<close>), and
  \<^verbatim>\<open>json.Unmarshal\<close> into a fresh string variable and into a fresh string slice: into a
  string, a JSON string is stored, \<^verbatim>\<open>null\<close> leaves the variable as it is (empty), and
  every other value is a type error; into a slice, \<^verbatim>\<open>null\<close> gives \<^verbatim>\<open>nil\<close> and an array is
  decoded element by element. Strings are written and read as UTF-8 text.
\<close>

definition MarshalString :: "string \<Rightarrow> error + json" where
  "MarshalString s = Inr (JString (ToValidUTF8 s))"

definition MarshalStrings :: "string list option \<Rightarrow> error + json" where
  "MarshalStrings xs =
     (case xs of
        None \<Rightarrow> Inr JNull
      | Some l \<Rightarrow> Inr (JArray (map (\<lambda>s. JString (ToValidUTF8 s)) l)))"

fun UnmarshalString :: "json \<Rightarrow> error + string" where
  "UnmarshalString (JString s) = Inr (ToValidUTF8 s)"
| "UnmarshalString JNull = Inr []"
| "UnmarshalString d = Inl (External ''json: cannot unmarshal into Go value of type string'')"

fun UnmarshalElems :: "json list \<Rightarrow> error + string list" where
  "UnmarshalElems [] = Inr []"
| "UnmarshalElems (d # ds) =
     (case UnmarshalString d of
        Inl err \<Rightarrow> Inl err
      | Inr s \<Rightarrow>
          (case UnmarshalElems ds of Inl err \<Rightarrow> Inl err | Inr l \<Rightarrow> Inr (s # l)))"

fun UnmarshalStrings :: "json \<Rightarrow> error + string list option" where
  "UnmarshalStrings JNull = Inr None"
| "UnmarshalStrings (JArray ds) =
     (case UnmarshalElems ds of Inl err \<Rightarrow> Inl err | Inr l \<Rightarrow> Inr (Some l))"
| "UnmarshalStrings d = Inl (External ''json: cannot unmarshal into Go value of type []string'')"

definition MarshalJSON :: "AudienceList \<Rightarrow> error + json" where
  "MarshalJSON al =
     (if length (elems al) = 1 then MarshalString (elems al ! 0) else MarshalStrings al)"

text \<open>\<^verbatim>\<open>UnmarshalJSON\<close> returns the list it stores in its receiver, or the error.\<close>

definition UnmarshalJSON :: "json \<Rightarrow> error + AudienceList" where
  "UnmarshalJSON data =
     (case UnmarshalString data of
        Inl err \<Rightarrow>
          (case UnmarshalStrings data of Inl err' \<Rightarrow> Inl err' | Inr v \<Rightarrow> Inr v)
      | Inr s \<Rightarrow> Inr (Some [s]))"

text \<open>Encoding a list with \<^verbatim>\<open>MarshalJSON\<close> and decoding the document with \<^verbatim>\<open>UnmarshalJSON\<close>.\<close>

definition encodeDecode :: "AudienceList \<Rightarrow> error + AudienceList" where
  "encodeDecode al =
     (case MarshalJSON al of Inl err \<Rightarrow> Inl err | Inr data \<Rightarrow> UnmarshalJSON data)"

section \<open>Concrete scenarios\<close>

text \<open>
  Service A asks an identity provider for a token for service B. The token endpoint
  answers every request with the status it is given and one fixed body; the JSON decoder
  is the library's, given here by its value on that body (on every other body the
  stand-in reports an error, and nothing below evaluates it there).
\<close>

definition tokenBody :: string where
  \<open>tokenBody = ''{"access_token":"tok1","token_type":"Bearer","expires_in":3600}''\<close>

definition decodeTokenBody :: "string \<Rightarrow> error + accessTokenResponse" where
  "decodeTokenBody body =
     (if body = tokenBody
      then Inr \<lparr>AccessToken = ''tok1'', TokenType = ''Bearer'', ExpiresIn = 3600\<rparr>
      else Inl (External ''invalid character''))"

definition tokenEndpoint :: "int \<Rightarrow> string \<Rightarrow> string \<Rightarrow> json \<Rightarrow> error + http_Response" where
  "tokenEndpoint code url ctype payload = Inr \<lparr>StatusCode = code, Body = tokenBody\<rparr>"

definition worldAt :: "int \<Rightarrow> int64 \<Rightarrow> granter_env" where
  "worldAt code now =
     \<lparr>Post = tokenEndpoint code, DecodeAccessToken = decodeTokenBody,
      NowRead = now, NowFetch = now\<rparr>"

definition serviceA :: Granter where
  "serviceA =
     \<lparr>ClientID = ''ee58c91d'', ClientSecret = ''94bcf5c3'',
      Granter.TenantURL = ''https://redventures.auth0.com/'',
      Granter.ExpirationMargin = 60, Granter.cache = None\<rparr>"

definition serviceA_cached :: "int64 \<Rightarrow> Granter" where
  "serviceA_cached e =
     serviceA\<lparr>Granter.cache :=
       Some [''https://svc-b'' \<mapsto> \<lparr>jwt = ''tok1'', cachedToken.expiration = e\<rparr>]\<rparr>"

text \<open>
  Service B verifies tokens against a tenant whose JWKS endpoint answers every request with
  the status it is given and one fixed key set: \<^verbatim>\<open>key-1\<close> with a certificate and \<^verbatim>\<open>key-2\<close>
  with an empty chain. The certificate is a self-signed X.509 certificate for an RSA key
  of 2048 bits, in base64 as an \<^verbatim>\<open>x5c\<close> entry carries it, and \<open>publicKey1\<close> is the key
  it certifies. The JSON decoder and the PEM parser are the libraries', given here by
  their values on that body and on that certificate in PEM armour; on every other input
  the stand-ins report an error, and nothing below evaluates them there. The tenant URL
  is configured with trailing slashes.
\<close>

definition certificate1 :: string where
  "certificate1 =
     ''MIIDITCCAgmgAwIBAgIUFHJn+6O0mJoPCafChg8fBYR20G0wDQYJKoZIhvcNAQEL''
     @ ''BQAwIDEeMBwGA1UEAwwVcmVkdmVudHVyZXMuYXV0aDAuY29tMB4XDTI2MTAzMTA3''
     @ ''NTUzOFoXDTM2MTAyODA3NTUzOFowIDEeMBwGA1UEAwwVcmVkdmVudHVyZXMuYXV0''
     @ ''aDAuY29tMIIBIjANBgkqhkiG9w0BAQEFAAOCAQ8AMIIBCgKCAQEAiGocL2e3TaKh''
     @ ''dgI1gKKTPtiJbz9LEOoLWAGlWDqHtkZmgRPnp/DeGRPVYSAEsI/GEkc8kL5+EsKK''
     @ ''/WdBjh33VnylsZ5s6HICw5AgTScBwcPNW5wtq0nzeClurfhAtjW4hzD5hVhQ+GH5''
     @ ''i7RrDXFYDm0Lg6kSqBwMaQ4ezza+zCdyOpXzuI4qON/Avz4qSaecHkTiBiBi0Ux6''
     @ ''/bdZsfNfRpJyCL2lixQt7SzcXszn+6Dud35MX4O0sssvr/0jFLvPoRdFYlvuf1gv''
     @ ''3HEIajVtxoa22NnIesTWbNn9bLsycnCs+TxUP7H50Xkr+y3hO0++NXIKi+yP8DPx''
     @ ''iEO8/Syp5QIDAQABo1MwUTAdBgNVHQ4EFgQUOpM7eY1z9/En1tbCyNj3IYHFsSww''
     @ ''HwYDVR0jBBgwFoAUOpM7eY1z9/En1tbCyNj3IYHFsSwwDwYDVR0TAQH/BAUwAwEB''
     @ ''/zANBgkqhkiG9w0BAQsFAAOCAQEAEZrJYvIcg14TqndNMXw0/b3a4+QaGio6evb6''
     @ ''rfDqzkrhnQ7EYndc7pfv1+GwZXvnbypTAGJSh14O8MG5/rx++4/TENl8pBeu6wnK''
     @ ''6e2CKT964d1z0jkFA8/NcHajKpBFMBPskhEXaj58VapZhw1vFAWTebuec4zGLbXo''
     @ ''lQTJNmZnYjXZRjikWc4OU2hoKMM7xVX6Kot4sp3aGerUA6NdWGrhgMVvNNwxXjsb''
     @ ''v1S9KyEfj9U8Aw9BQEJbFI8Fv3k1e63QJwmskwEXIVoOxnZJW8Z6j0GvA/tJ81oi''
     @ ''OdOXUvplm9fGZ3MfrU2LQS2eodczWPzUI9tWEInPP9fROj6l3Q==''"

definition publicKey1 :: rsa_PublicKey where
  "publicKey1 =
     \<lparr>N = 17220734315051394527935496778506186364985983510655799474735459751407515440604395046112834563987435028714624298735402514140891367362807720503950255296534737523004710202034679483329408436475107080044087683481700323522559581955712714461128365969068407670598435816049364788219281768610807830776951828972696953391593393515172905029287413097439437461910338362667448158905433970449698555345605026791940578009738087924987587391914665044415466453397977426708124827957378396292644086126930827803090392323265960566662150446201116267173950341988853260435898848361840941565477048548922583306813317888460707857671683771981043116517,
      E = 65537\<rparr>"

definition jwksBody :: string where
  \<open>jwksBody =
     ''{"keys":[{"kid":"key-1","x5c":["'' @ certificate1
       @ ''"]},{"kid":"key-2","x5c":[]}]}''\<close>

definition jwksKeys :: "jwk list" where
  "jwksKeys =
     [\<lparr>KeyID = ''key-1'', CertificateChain = [certificate1]\<rparr>,
      \<lparr>KeyID = ''key-2'', CertificateChain = []\<rparr>]"

definition decodeJwksBody :: "string \<Rightarrow> error + jwk list" where
  "decodeJwksBody body =
     (if body = jwksBody then Inr jwksKeys else Inl (External ''invalid character''))"

definition parsePem :: "string \<Rightarrow> error + rsa_PublicKey" where
  "parsePem pem =
     (if pem = pemCertificate certificate1 then Inr publicKey1
      else Inl (External ''x509: malformed certificate''))"

definition jwksWorld :: "int \<Rightarrow> int64 \<Rightarrow> verifier_env" where
  "jwksWorld code now =
     \<lparr>Get = (\<lambda>url. Inr \<lparr>StatusCode = code, Body = jwksBody\<rparr>),
      DecodeKeys = decodeJwksBody, ParseRSAPublicKeyFromPEM = parsePem,
      NowLookup = now, NowWrite = now\<rparr>"

definition serviceB :: Verifier where
  "serviceB =
     \<lparr>Resource = ''https://svc-b'', TenantURL = ''https://redventures.auth0.com///'',
      ExpirationMargin = 60, cache = None\<rparr>"

text \<open>
  A decoded token for given audiences and issuer, signed under \<^verbatim>\<open>key-1\<close>, and a JWT parser
  that decodes every string to a given token and accepts every signature.
\<close>

definition claimsOf :: "string list \<Rightarrow> string \<Rightarrow> Claims" where
  "claimsOf aud iss =
     \<lparr>Scope = ''read:billing'', Audience = Some aud, Email = [], EmployeeId = [],
      FirstName = [], LastName = [], ExpiresAt = 5000, Id = [], IssuedAt = 900,
      Issuer = iss, NotBefore = 900, Subject = ''service-a''\<rparr>"

definition tokenOf :: "string list \<Rightarrow> string \<Rightarrow> jwt_Token" where
  "tokenOf aud iss =
     \<lparr>jwt_Token.Raw = ''header.payload.signature'',
      Header = [''alg'' \<mapsto> JString ''RS256'', ''kid'' \<mapsto> JString ''key-1''],
      jwt_Token.Claims = CustomClaims (claimsOf aud iss)\<rparr>"

definition acceptingParser :: "jwt_Token \<Rightarrow> jwt_Parser" where
  "acceptingParser t = \<lparr>ParseUnverified = (\<lambda>s. Inr t), Verify = (\<lambda>t k. None)\<rparr>"

section \<open>Properties of the granter\<close>

subsection \<open>Auxiliary facts\<close>

lemma GetToken_hit:
  "resource \<noteq> [] \<Longrightarrow> readToken g (NowRead env) resource = (tok, True) \<Longrightarrow>
   GetToken env g resource = (Inr tok, g, [CacheRead resource])"
  by (simp add: GetToken_def)

lemma GetToken_miss:
  "resource \<noteq> [] \<Longrightarrow> \<not> snd (readToken g (NowRead env) resource) \<Longrightarrow>
   GetToken env g resource =
     (case fetchToken env g resource of
        (r, g', evs) \<Rightarrow> (r, g', CacheRead resource # SingleflightDo resource # evs))"
  by (cases "readToken g (NowRead env) resource")
     (auto simp: GetToken_def Do_def split: prod.splits)

lemma GetToken_state_cases:
  "GetToken env g resource = (r, g', evs) \<Longrightarrow>
   g' = g \<or> (resource \<noteq> [] \<and> (\<exists>tok e. g' = writeToken g resource tok e))"
  by (auto simp: GetToken_def Do_def fetchToken_def Let_def
           split: if_splits prod.splits bool.splits sum.splits)

lemma reachable_no_empty_key:
  "reachable g \<Longrightarrow> Granter.cache g = Some m \<Longrightarrow> m [] = None"
proof (induction arbitrary: m rule: reachable.induct)
  case (fresh g)
  then show ?case by simp
next
  case (get g env resource r g' evs)
  from get.hyps(2) have "g' = g \<or> (resource \<noteq> [] \<and> (\<exists>tok e. g' = writeToken g resource tok e))"
    by (rule GetToken_state_cases)
  then show ?case
  proof
    assume "g' = g"
    with get show ?thesis by simp
  next
    assume "resource \<noteq> [] \<and> (\<exists>tok e. g' = writeToken g resource tok e)"
    then obtain tok e where ne: "resource \<noteq> []" and g': "g' = writeToken g resource tok e"
      by blast
    show ?thesis
    proof (cases "Granter.cache g")
      case None
      with g' get.prems ne show ?thesis
        by (auto simp: writeToken_def)
    next
      case (Some m0)
      with get.IH have "m0 [] = None" by simp
      with g' get.prems ne Some show ?thesis
        by (auto simp: writeToken_def)
    qed
  qed
next
  case (reset g)
  then show ?case by (simp add: ResetCache_def)
next
  case (assign g g')
  then show ?case by simp
qed

lemma readToken_hit_in_cache:
  "readToken g now resource = (tok, True) \<Longrightarrow> \<exists>m tc. Granter.cache g = Some m \<and> m resource = Some tc"
  by (auto simp: readToken_def split: option.splits if_splits)


lemma sint_add_3540:
  fixes t :: int64
  assumes "sint t + 3600 < 2 ^ 63"
  shows "sint (t + 3600 - 60) = sint t + 3540"
proof -
  have eq: "t + 3600 - 60 = t + 3540" by simp
  have lo: "- (2 ^ 63) \<le> sint t" using sint_ge [of t] by simp
  have "sint (t + 3540) = signed_take_bit 63 (sint t + sint (3540 :: int64))"
    by (simp add: sint_word_ariths)
  also have "sint (3540 :: int64) = 3540" by simp
  also have "signed_take_bit 63 (sint t + 3540) = sint t + 3540"
    using lo assms by (intro signed_take_bit_int_eq_self) auto
  finally have "sint (t + 3540) = sint t + 3540" .
  then show ?thesis unfolding eq .
qed

lemma fetchToken_posts_once:
  "ClientID g \<noteq> [] \<Longrightarrow> ClientSecret g \<noteq> [] \<Longrightarrow> Granter.TenantURL g \<noteq> [] \<Longrightarrow>
   length (filter is_http (snd (snd (fetchToken env g resource)))) = 1"
  by (simp add: fetchToken_def Let_def split: sum.splits)

lemma fetchToken_ok:
  assumes "ClientID g \<noteq> []" "ClientSecret g \<noteq> []" "Granter.TenantURL g \<noteq> []"
    and "Post env (tokenURL g) ''application/json'' (tokenPayload g resource) = Inr resp"
    and "200 \<le> StatusCode resp" "StatusCode resp < 400"
    and "DecodeAccessToken env (Body resp) = Inr atr"
  shows "fetchToken env g resource =
     (Inr (AccessToken atr),
      writeToken g resource (AccessToken atr) (NowFetch env + ExpiresIn atr),
      [HTTPPost (tokenURL g) ''application/json'' (tokenPayload g resource), CacheWrite resource])"
  using assms by (simp add: fetchToken_def Let_def)

lemma readToken_after_write:
  "readToken (writeToken g resource tok expiresOn) now resource =
     (if word_sle now (expiresOn - Granter.ExpirationMargin g) then (tok, True) else ([], False))"
  by (simp add: readToken_def writeToken_def Let_def)

lemma writeToken_fields:
  "ClientID (writeToken g r t e) = ClientID g"
  "ClientSecret (writeToken g r t e) = ClientSecret g"
  "Granter.TenantURL (writeToken g r t e) = Granter.TenantURL g"
  by (simp_all add: writeToken_def Let_def)


lemma TrimRight_tenant [simp]:
  "TrimRight ''https://redventures.auth0.com/'' ''/'' = ''https://redventures.auth0.com''"
  by (simp add: TrimRight_def)

subsection \<open>Empty resource\<close>

text \<open>
  Claim C7. For the empty resource string, \<^verbatim>\<open>GetToken\<close> fails with the error
  \<^verbatim>\<open>resource cannot be empty\<close>, leaves the granter as it was and leaves no event behind:
  no cache read, no entry into the singleflight group, no HTTP request.
\<close>

theorem GetToken_empty_resource:
  "GetToken env g [] = (Inl (New ''resource cannot be empty''), g, [])"
  by (simp add: GetToken_def)

theorem GetToken_empty_resource_witness:
  "GetToken (worldAt 200 1000) serviceA [] =
     (Inl (New ''resource cannot be empty''), serviceA, [])"
  using GetToken_empty_resource [of "worldAt 200 1000" serviceA] by simp

subsection \<open>Caching with the expiration margin\<close>

text \<open>
  Claim C3. When the cache misses and the token endpoint answers with an accepted status
  and a body that decodes to \<open>atr\<close>, \<^verbatim>\<open>GetToken\<close> returns the access token after exactly one
  request and stores it under the resource with the expiration
  \<open>NowFetch + ExpiresIn - ExpirationMargin\<close>. With \<open>ExpiresIn = 3600\<close> and a margin of
  \<open>60\<close> (and a clock reading far from the end of the \<^verbatim>\<open>int64\<close> range), a later call for the
  same resource made less than 3540 seconds after the fetch returns the cached token and
  sends nothing, and a call made more than 3540 seconds after it sends exactly one
  request, whatever the endpoint answers.
\<close>

theorem GetToken_caches_until_margin:
  assumes res: "resource \<noteq> []"
    and miss: "\<not> snd (readToken g (NowRead env) resource)"
    and conf: "ClientID g \<noteq> []" "ClientSecret g \<noteq> []" "Granter.TenantURL g \<noteq> []"
    and post: "Post env (tokenURL g) ''application/json'' (tokenPayload g resource) = Inr resp"
    and status: "200 \<le> StatusCode resp" "StatusCode resp < 400"
    and decode: "DecodeAccessToken env (Body resp) = Inr atr"
    and g': "g' = g\<lparr>Granter.cache :=
               Some ((case Granter.cache g of None \<Rightarrow> Map.empty | Some m \<Rightarrow> m)
                 (resource \<mapsto> \<lparr>jwt = AccessToken atr,
                    cachedToken.expiration = NowFetch env + ExpiresIn atr - Granter.ExpirationMargin g\<rparr>))\<rparr>"
  shows "GetToken env g resource =
           (Inr (AccessToken atr), g',
            [CacheRead resource, SingleflightDo resource,
             HTTPPost (tokenURL g) ''application/json'' (tokenPayload g resource),
             CacheWrite resource])
         \<and> (ExpiresIn atr = 3600 \<and> Granter.ExpirationMargin g = 60
              \<and> sint (NowFetch env) + 3600 < 2 ^ 63 \<longrightarrow>
             (\<forall>env2. sint (NowRead env2) - sint (NowFetch env) < 3540 \<longrightarrow>
                GetToken env2 g' resource = (Inr (AccessToken atr), g', [CacheRead resource]))
           \<and> (\<forall>env2. 3540 < sint (NowRead env2) - sint (NowFetch env) \<longrightarrow>
                length (filter is_http (snd (snd (GetToken env2 g' resource)))) = 1))"
proof -
  have w: "writeToken g resource (AccessToken atr) (NowFetch env + ExpiresIn atr) = g'"
    by (simp add: writeToken_def Let_def g')
  have first: "GetToken env g resource =
           (Inr (AccessToken atr), g',
            [CacheRead resource, SingleflightDo resource,
             HTTPPost (tokenURL g) ''application/json'' (tokenPayload g resource),
             CacheWrite resource])"
    using GetToken_miss [OF res miss] fetchToken_ok [OF conf post status decode] w by simp
  have later: "(\<forall>env2. sint (NowRead env2) - sint (NowFetch env) < 3540 \<longrightarrow>
                GetToken env2 g' resource = (Inr (AccessToken atr), g', [CacheRead resource]))
           \<and> (\<forall>env2. 3540 < sint (NowRead env2) - sint (NowFetch env) \<longrightarrow>
                length (filter is_http (snd (snd (GetToken env2 g' resource)))) = 1)"
    if sc: "ExpiresIn atr = 3600" "Granter.ExpirationMargin g = 60"
       "sint (NowFetch env) + 3600 < 2 ^ 63"
  proof -
    have stored: "sint (NowFetch env + ExpiresIn atr - Granter.ExpirationMargin g)
                    = sint (NowFetch env) + 3540"
      using sint_add_3540 [OF sc(3)] sc(1,2) by simp
    have rd: "readToken g' now resource =
        (if sint now \<le> sint (NowFetch env) + 3540 then (AccessToken atr, True) else ([], False))"
      for now
      using readToken_after_write [of g resource "AccessToken atr" "NowFetch env + ExpiresIn atr" now]
        stored by (simp add: w word_sle_eq)
    have conf': "ClientID g' \<noteq> []" "ClientSecret g' \<noteq> []" "Granter.TenantURL g' \<noteq> []"
      using conf by (simp_all add: g')
    have hit: "GetToken env2 g' resource = (Inr (AccessToken atr), g', [CacheRead resource])"
      if "sint (NowRead env2) - sint (NowFetch env) < 3540" for env2
      using that rd [of "NowRead env2"] by (intro GetToken_hit [OF res]) simp
    have refetch: "length (filter is_http (snd (snd (GetToken env2 g' resource)))) = 1"
      if "3540 < sint (NowRead env2) - sint (NowFetch env)" for env2
    proof -
      have "\<not> snd (readToken g' (NowRead env2) resource)"
        using that rd [of "NowRead env2"] by simp
      from GetToken_miss [OF res this] fetchToken_posts_once [OF conf', of env2 resource]
      show ?thesis by (simp split: prod.splits)
    qed
    from hit refetch show ?thesis by blast
  qed
  from first later show ?thesis by blast
qed

theorem GetToken_caches_until_margin_witness:
  "GetToken (worldAt 200 1000) serviceA ''https://svc-b'' =
     (Inr ''tok1'', serviceA_cached 4540,
      [CacheRead ''https://svc-b'', SingleflightDo ''https://svc-b'',
       HTTPPost ''https://redventures.auth0.com/oauth/token'' ''application/json''
         (tokenPayload serviceA ''https://svc-b''),
       CacheWrite ''https://svc-b''])
   \<and> GetToken (worldAt 200 4539) (serviceA_cached 4540) ''https://svc-b'' =
       (Inr ''tok1'', serviceA_cached 4540, [CacheRead ''https://svc-b''])
   \<and> length (filter is_http
        (snd (snd (GetToken (worldAt 500 4541) (serviceA_cached 4540) ''https://svc-b'')))) = 1"
proof -
  let ?r = "''https://svc-b''"
  let ?resp = "\<lparr>StatusCode = 200, Body = tokenBody\<rparr>"
  let ?atr = "\<lparr>AccessToken = ''tok1'', TokenType = ''Bearer'', ExpiresIn = 3600 :: int64\<rparr>"
  have h1: "?r \<noteq> []" by simp
  have h2: "\<not> snd (readToken serviceA (NowRead (worldAt 200 1000)) ?r)"
    by (simp add: readToken_def serviceA_def)
  have h3: "ClientID serviceA \<noteq> []" "ClientSecret serviceA \<noteq> []"
    "Granter.TenantURL serviceA \<noteq> []"
    by (simp_all add: serviceA_def)
  have h4: "Post (worldAt 200 1000) (tokenURL serviceA) ''application/json''
              (tokenPayload serviceA ?r) = Inr ?resp"
    by (simp add: worldAt_def tokenEndpoint_def)
  have h5: "200 \<le> StatusCode ?resp" "StatusCode ?resp < 400" by simp_all
  have h6: "DecodeAccessToken (worldAt 200 1000) (Body ?resp) = Inr ?atr"
    by (simp add: worldAt_def decodeTokenBody_def)
  have h7: "serviceA_cached 4540 = serviceA\<lparr>Granter.cache :=
               Some ((case Granter.cache serviceA of None \<Rightarrow> Map.empty | Some m \<Rightarrow> m)
                 (?r \<mapsto> \<lparr>jwt = AccessToken ?atr,
                    cachedToken.expiration = NowFetch (worldAt 200 1000) + ExpiresIn ?atr
                      - Granter.ExpirationMargin serviceA\<rparr>))\<rparr>"
    by (simp add: serviceA_cached_def serviceA_def worldAt_def)
  note th = GetToken_caches_until_margin [OF h1 h2 h3 h4 h5 h6 h7]
  have sc: "ExpiresIn ?atr = 3600 \<and> Granter.ExpirationMargin serviceA = 60
              \<and> sint (NowFetch (worldAt 200 1000)) + 3600 < 2 ^ 63"
    by (simp add: serviceA_def worldAt_def)
  from th sc have
    early: "\<forall>env2. sint (NowRead env2) - sint (NowFetch (worldAt 200 1000)) < 3540 \<longrightarrow>
              GetToken env2 (serviceA_cached 4540) ?r =
                (Inr (AccessToken ?atr), serviceA_cached 4540, [CacheRead ?r])"
    and late: "\<forall>env2. 3540 < sint (NowRead env2) - sint (NowFetch (worldAt 200 1000)) \<longrightarrow>
              length (filter is_http (snd (snd (GetToken env2 (serviceA_cached 4540) ?r)))) = 1"
    by blast+
  have e: "sint (NowRead (worldAt 200 4539)) - sint (NowFetch (worldAt 200 1000)) < 3540"
    by (simp add: worldAt_def)
  have l: "3540 < sint (NowRead (worldAt 500 4541)) - sint (NowFetch (worldAt 200 1000))"
    by (simp add: worldAt_def)
  from th have "GetToken (worldAt 200 1000) serviceA ?r =
     (Inr ''tok1'', serviceA_cached 4540,
      [CacheRead ?r, SingleflightDo ?r,
       HTTPPost ''https://redventures.auth0.com/oauth/token'' ''application/json''
         (tokenPayload serviceA ?r),
       CacheWrite ?r])"
    by (simp add: tokenURL_def serviceA_def)
  moreover from early e have "GetToken (worldAt 200 4539) (serviceA_cached 4540) ?r =
       (Inr ''tok1'', serviceA_cached 4540, [CacheRead ?r])"
    by auto
  moreover from late l have "length (filter is_http
        (snd (snd (GetToken (worldAt 500 4541) (serviceA_cached 4540) ?r)))) = 1"
    by blast
  ultimately show ?thesis by blast
qed

subsection \<open>A cache hit does not look at the configuration\<close>

text \<open>
  Claim C10. For every granter a program can hold whose cache has a token for the
  resource that \<^verbatim>\<open>readToken\<close> returns, \<^verbatim>\<open>GetToken\<close> returns that token and only reads the
  cache; the same holds when \<^verbatim>\<open>ClientID\<close>, \<^verbatim>\<open>ClientSecret\<close> and \<^verbatim>\<open>TenantURL\<close> are empty,
  because they are only examined in the function run on a cache miss.
\<close>

theorem cache_hit_skips_configuration_check:
  assumes "reachable g" and "readToken g (NowRead env) resource = (tok, True)"
  shows "GetToken env g resource = (Inr tok, g, [CacheRead resource]) \<and>
         GetToken env (g\<lparr>ClientID := [], ClientSecret := [], Granter.TenantURL := []\<rparr>) resource =
           (Inr tok, g\<lparr>ClientID := [], ClientSecret := [], Granter.TenantURL := []\<rparr>,
            [CacheRead resource])"
proof -
  from assms(2) obtain m tc where "Granter.cache g = Some m" and "m resource = Some tc"
    using readToken_hit_in_cache by blast
  with assms(1) have ne: "resource \<noteq> []"
    using reachable_no_empty_key by fastforce
  have "readToken (g\<lparr>ClientID := [], ClientSecret := [], Granter.TenantURL := []\<rparr>)
          (NowRead env) resource = (tok, True)"
    using assms(2) by (simp add: readToken_def)
  with ne assms(2) show ?thesis
    by (simp add: GetToken_hit)
qed

theorem cache_hit_skips_configuration_check_witness:
  "GetToken (worldAt 500 4000)
     ((serviceA_cached 4540)\<lparr>ClientID := [], ClientSecret := [], Granter.TenantURL := []\<rparr>)
     ''https://svc-b'' =
   (Inr ''tok1'',
    (serviceA_cached 4540)\<lparr>ClientID := [], ClientSecret := [], Granter.TenantURL := []\<rparr>,
    [CacheRead ''https://svc-b''])"
proof -
  have "reachable serviceA"
    by (rule reachable.fresh) (simp add: serviceA_def)
  moreover have "GetToken (worldAt 200 1000) serviceA ''https://svc-b'' =
     (Inr ''tok1'', serviceA_cached 4540,
      [CacheRead ''https://svc-b'', SingleflightDo ''https://svc-b'',
       HTTPPost (tokenURL serviceA) ''application/json''
         (tokenPayload serviceA ''https://svc-b''),
       CacheWrite ''https://svc-b''])"
    by (simp add: GetToken_def readToken_def Do_def fetchToken_def Let_def writeToken_def
          worldAt_def tokenEndpoint_def decodeTokenBody_def serviceA_def serviceA_cached_def)
  ultimately have r: "reachable (serviceA_cached 4540)"
    by (rule reachable.get)
  have h: "readToken (serviceA_cached 4540) (NowRead (worldAt 500 4000)) ''https://svc-b''
             = (''tok1'', True)"
    by (simp add: readToken_def serviceA_cached_def serviceA_def worldAt_def)
  from cache_hit_skips_configuration_check [OF r h] show ?thesis by simp
qed

subsection \<open>The boundary of \<^verbatim>\<open>readToken\<close>\<close>

text \<open>
  What the two cache reads guarantee: \<^verbatim>\<open>readPublicKey\<close> returns a key only while now is
  strictly before the stored expiration, and reports not-found for an absent or expired
  key; \<^verbatim>\<open>readToken\<close> returns a token while now is before or equal to it.
\<close>

lemma readPublicKey_fresh:
  "readPublicKey v now kid = Some pk \<Longrightarrow>
   \<exists>m c. Verifier.cache v = Some m \<and> m kid = Some c \<and> key c = pk
          \<and> sint now < sint (keyCache.expiration c)"
  by (auto simp: readPublicKey_def word_sless_alt split: option.splits if_splits)

lemma readPublicKey_not_found:
  "(\<forall>m. Verifier.cache v = Some m \<longrightarrow>
        (case m kid of None \<Rightarrow> True | Some c \<Rightarrow> sint (keyCache.expiration c) \<le> sint now)) \<Longrightarrow>
   readPublicKey v now kid = None"
  by (auto simp: readPublicKey_def word_sless_alt split: option.splits)

lemma readToken_fresh:
  "readToken g now resource = (tok, True) \<Longrightarrow>
   \<exists>m tc. Granter.cache g = Some m \<and> m resource = Some tc \<and> jwt tc = tok
           \<and> sint now \<le> sint (cachedToken.expiration tc)"
  by (auto simp: readToken_def word_sle_eq split: option.splits if_splits)

text \<open>
  Claim C2. A read of the token cache at the very second stored as the entry's
  expiration still returns the entry: \<^verbatim>\<open>readToken\<close> compares with \<^verbatim>\<open>>=\<close>, where
  \<^verbatim>\<open>readPublicKey\<close> compares with \<^verbatim>\<open>>\<close>.
\<close>

theorem readToken_returns_entry_expiring_now:
  "readToken (serviceA_cached 1000) 1000 ''https://svc-b'' = (''tok1'', True)"
  by (simp add: readToken_def serviceA_cached_def serviceA_def)

section \<open>Properties of the verifier\<close>

subsection \<open>Auxiliary facts\<close>

lemma getKey_miss:
  "readPublicKey v (NowLookup env) kid = None \<Longrightarrow>
   getKey env v kid =
     (case fetchKey env v kid of
        (r, v', evs) \<Rightarrow> (r, v', CacheRead kid # SingleflightDo kid # evs))"
  by (simp add: getKey_def Do_def split: prod.splits)

lemma fetchKey_accepted:
  assumes "Get env (keyURL v) = Inr resp"
    and "200 \<le> StatusCode resp" "StatusCode resp < 400"
    and "DecodeKeys env (Body resp) = Inr keys"
  shows "fst (fetchKey env v kid) = fst (scanKeys env v kid keys)"
  using assms by (simp add: fetchKey_def Let_def split: prod.splits)

lemma scanKeys_result:
  "fst (scanKeys env v kid keys) =
     (case find (\<lambda>k. KeyID k = kid) keys of
        None \<Rightarrow> Inl (New (''no key for kid: '' @ kid))
      | Some k \<Rightarrow>
          (case CertificateChain k of
             [] \<Rightarrow> Inl (New ''missing certificate chain'')
           | cert # rest \<Rightarrow>
               (case ParseRSAPublicKeyFromPEM env (pemCertificate cert) of
                  Inl err \<Rightarrow> Inl (Wrap err ''unable to parse public key'')
                | Inr pk \<Rightarrow> Inr pk)))"
  by (induction keys) (auto split: list.splits sum.splits)

lemma verifyAudience_iff:
  "verifyAudience v auds =
     (if Resource v \<in> set auds then None
      else Some (Errorf (''bad token: missing '%s' audience'') [S (Resource v)]))"
  by (induction auds) auto

lemma TrimRight_slash_decomp:
  "\<exists>n. s = TrimRight s ''/'' @ replicate n CHR ''/''"
proof -
  let ?P = "\<lambda>c. c \<in> set ''/''"
  have "rev (rev s) = rev (takeWhile ?P (rev s) @ dropWhile ?P (rev s))"
    by (simp only: takeWhile_dropWhile_id)
  then have s: "s = TrimRight s ''/'' @ rev (takeWhile ?P (rev s))"
    by (simp only: rev_rev_ident rev_append TrimRight_def)
  have "\<forall>c \<in> set (rev (takeWhile ?P (rev s))). c = CHR ''/''"
    by (auto dest: set_takeWhileD)
  then have "rev (takeWhile ?P (rev s)) = replicate (length (rev (takeWhile ?P (rev s)))) CHR ''/''"
    by (intro replicate_eqI) auto
  with s show ?thesis by metis
qed

lemma TrimRight_slash_last:
  "TrimRight s ''/'' = [] \<or> last (TrimRight s ''/'') \<noteq> CHR ''/''"
proof (cases "dropWhile (\<lambda>c. c \<in> set ''/'') (rev s)")
  case Nil
  then show ?thesis by (simp add: TrimRight_def)
next
  case (Cons c cs)
  then have "\<not> c \<in> set ''/''"
    using hd_dropWhile [of "\<lambda>c. c \<in> set ''/''" "rev s"] by auto
  with Cons show ?thesis by (simp add: TrimRight_def)
qed

lemma keyFunc_audience_error:
  assumes "jwt_Token.Claims token = CustomClaims c" "Resource v \<notin> set (elems (Audience c))"
  shows "keyFunc env v token =
           (Inl (Errorf (''bad token: missing '%s' audience'') [S (Resource v)]), v, [])"
  using assms by (simp add: keyFunc_def verifyAudience_iff)

lemma keyFunc_issuer_error:
  assumes "jwt_Token.Claims token = CustomClaims c" "Resource v \<in> set (elems (Audience c))"
    "Issuer c \<noteq> expectedIssuer v"
  shows "keyFunc env v token =
           (Inl (Errorf issuerFormat [S (Issuer c), S (expectedIssuer v)]), v, [])"
  using assms by (simp add: keyFunc_def verifyAudience_iff Let_def)

lemma keyFunc_kid_error:
  assumes "jwt_Token.Claims token = CustomClaims c" "Resource v \<in> set (elems (Audience c))"
    "Issuer c = expectedIssuer v" "\<forall>kid. Header token ''kid'' \<noteq> Some (JString kid)"
  shows "keyFunc env v token = (Inl (New ''unable to get kid header from token''), v, [])"
proof -
  have ne: "expectedIssuer v \<noteq> []" by (simp add: expectedIssuer_def)
  show ?thesis
    using assms ne
    by (auto simp: keyFunc_def verifyAudience_iff Let_def split: option.splits json.splits)
qed

lemma keyFunc_resolves:
  assumes "jwt_Token.Claims token = CustomClaims c" "Resource v \<in> set (elems (Audience c))"
    "Issuer c = expectedIssuer v" "Header token ''kid'' = Some (JString kid)"
  shows "keyFunc env v token =
           (case getKey env v kid of
              (Inl err, v', evs) \<Rightarrow> (Inl (Wrap err ''unable to get public key''), v', evs)
            | (Inr pk, v', evs) \<Rightarrow> (Inr pk, v', evs))"
proof -
  have ne: "expectedIssuer v \<noteq> []" by (simp add: expectedIssuer_def)
  show ?thesis
    using assms ne by (simp add: keyFunc_def verifyAudience_iff Let_def)
qed

lemma VerifyToken_keyFunc_error:
  assumes "ParseUnverified p s = Inr token" "keyFunc env v token = (Inl err, v', evs)"
  shows "VerifyToken p env v s = (Inl err, v', evs)"
  using assms by (simp add: VerifyToken_def ParseWithClaims_def)

lemma VerifyToken_signature_checked:
  assumes parse: "ParseUnverified p s = Inr token"
    and sig: "VerifySignature \<in> set (snd (snd (VerifyToken p env v s)))"
    and nosig: "VerifySignature \<notin> set (snd (snd (keyFunc env v token)))"
  shows "\<exists>pk. fst (keyFunc env v token) = Inr pk"
proof (cases "keyFunc env v token")
  case (fields r v' evs)
  show ?thesis
  proof (cases r)
    case (Inl err)
    with fields parse have "VerifyToken p env v s = (Inl err, v', evs)"
      by (simp add: VerifyToken_keyFunc_error)
    with sig nosig fields show ?thesis by simp
  next
    case (Inr pk)
    with fields show ?thesis by simp
  qed
qed

lemma scanKeys_no_signature:
  "scanKeys env v kid keys = (r, v', evs) \<Longrightarrow> VerifySignature \<notin> set evs"
  by (induction keys) (auto split: list.splits sum.splits if_splits)

lemma getKey_no_signature:
  "getKey env v kid = (r, v', evs) \<Longrightarrow> VerifySignature \<notin> set evs"
  by (auto simp: getKey_def Do_def fetchKey_def Let_def
           split: option.splits prod.splits sum.splits if_splits
           dest: scanKeys_no_signature)

lemma keyFunc_no_signature: "VerifySignature \<notin> set (snd (snd (keyFunc env v token)))"
  by (auto simp: keyFunc_def Let_def
           split: jwt_Claims.splits option.splits json.splits prod.splits sum.splits if_splits
           dest: getKey_no_signature)

subsection \<open>Key resolution from a JWKS response\<close>

text \<open>
  Claim C8. When the key cache misses and the JWKS endpoint answers with an accepted status
  and a body that decodes to the key list \<open>keys\<close>: if no entry has the requested kid, key
  resolution fails with \<^verbatim>\<open>no key for kid: \<close> followed by the kid; if the first entry with
  that kid has an empty certificate chain, it fails with \<^verbatim>\<open>missing certificate chain\<close>; and
  if it succeeds, the key is the PEM parser's result on the first certificate of the first
  entry with that kid.
\<close>

theorem getKey_resolves_first_matching_entry:
  assumes miss: "readPublicKey v (NowLookup env) kid = None"
    and get: "Get env (keyURL v) = Inr resp"
    and status: "200 \<le> StatusCode resp" "StatusCode resp < 400"
    and decode: "DecodeKeys env (Body resp) = Inr keys"
  shows "(kid \<notin> KeyID ` set keys \<longrightarrow>
            fst (getKey env v kid) = Inl (New (''no key for kid: '' @ kid)))
       \<and> (\<forall>k. find (\<lambda>k. KeyID k = kid) keys = Some k \<and> CertificateChain k = [] \<longrightarrow>
            fst (getKey env v kid) = Inl (New ''missing certificate chain''))
       \<and> (\<forall>pk. fst (getKey env v kid) = Inr pk \<longrightarrow>
            (\<exists>k cert rest. find (\<lambda>k. KeyID k = kid) keys = Some k
               \<and> CertificateChain k = cert # rest
               \<and> ParseRSAPublicKeyFromPEM env (pemCertificate cert) = Inr pk))"
proof -
  have res: "fst (getKey env v kid) = fst (scanKeys env v kid keys)"
    using getKey_miss [OF miss] fetchKey_accepted [OF get status decode, of kid]
    by (simp split: prod.splits)
  have none: "find (\<lambda>k. KeyID k = kid) keys = None" if "kid \<notin> KeyID ` set keys"
    using that by (auto simp: find_None_iff)
  show ?thesis
    unfolding res scanKeys_result
    by (auto simp: none split: option.splits list.splits sum.splits)
qed

theorem getKey_resolves_first_matching_entry_witness:
  "fst (getKey (jwksWorld 200 1000) serviceB ''missing-kid'') =
     Inl (New ''no key for kid: missing-kid'')
   \<and> fst (getKey (jwksWorld 200 1000) serviceB ''key-2'') =
     Inl (New ''missing certificate chain'')
   \<and> fst (getKey (jwksWorld 200 1000) serviceB ''key-1'') = Inr publicKey1
   \<and> (\<exists>k cert rest.
         find (\<lambda>k. KeyID k = ''key-1'') jwksKeys = Some k
         \<and> CertificateChain k = cert # rest
         \<and> ParseRSAPublicKeyFromPEM (jwksWorld 200 1000) (pemCertificate cert)
             = Inr publicKey1)"
proof -
  let ?env = "jwksWorld 200 1000"
  let ?resp = "\<lparr>StatusCode = 200, Body = jwksBody\<rparr>"
  have miss: "readPublicKey serviceB (NowLookup ?env) kid = None" for kid
    by (simp add: readPublicKey_def serviceB_def)
  have get: "Get ?env (keyURL serviceB) = Inr ?resp"
    by (simp add: jwksWorld_def)
  have status: "200 \<le> StatusCode ?resp" "StatusCode ?resp < 400" by simp_all
  have decode: "DecodeKeys ?env (Body ?resp) = Inr jwksKeys"
    by (simp add: jwksWorld_def decodeJwksBody_def)
  note th = getKey_resolves_first_matching_entry [OF miss get status decode]
  have a: "fst (getKey ?env serviceB ''missing-kid'') = Inl (New ''no key for kid: missing-kid'')"
    using th [of "''missing-kid''"] by (simp add: jwksKeys_def)
  have b: "fst (getKey ?env serviceB ''key-2'') = Inl (New ''missing certificate chain'')"
    using th [of "''key-2''"] by (simp add: jwksKeys_def)
  have c: "fst (getKey ?env serviceB ''key-1'') = Inr publicKey1"
    by (simp add: getKey_def readPublicKey_def serviceB_def Do_def fetchKey_def Let_def
          jwksWorld_def decodeJwksBody_def jwksKeys_def parsePem_def)
  from th [of "''key-1''"] c have d: "\<exists>k cert rest.
         find (\<lambda>k. KeyID k = ''key-1'') jwksKeys = Some k
         \<and> CertificateChain k = cert # rest
         \<and> ParseRSAPublicKeyFromPEM ?env (pemCertificate cert) = Inr publicKey1"
    by blast
  from a b c d show ?thesis by blast
qed

subsection \<open>The order of the checks in the key function\<close>

text \<open>
  Claim C4. For a token whose claims are the package's \<^verbatim>\<open>Claims\<close>, the key function checks
  the audience first, then the issuer, then the kid header, and only then resolves the
  key: an excluded audience gives the audience error whatever the issuer, the header and
  the key set are; an issuer mismatch gives the issuer error and leaves no event behind
  (no cache read, no JWKS request); a missing kid gives the kid error. \<^verbatim>\<open>VerifyToken\<close>
  returns the first two errors for every JWT parser that decodes the string to the token,
  whatever its signature check answers, and the signature check runs only when audience,
  issuer and kid were accepted and the key was resolved.
\<close>

theorem keyFunc_check_order:
  assumes claims: "jwt_Token.Claims token = CustomClaims c"
  shows "(Resource v \<notin> set (elems (Audience c)) \<longrightarrow>
            keyFunc env v token =
              (Inl (Errorf (''bad token: missing '%s' audience'') [S (Resource v)]), v, []))
       \<and> (Resource v \<in> set (elems (Audience c)) \<and> Issuer c \<noteq> expectedIssuer v \<longrightarrow>
            keyFunc env v token =
              (Inl (Errorf issuerFormat [S (Issuer c), S (expectedIssuer v)]), v, []))
       \<and> (Resource v \<in> set (elems (Audience c)) \<and> Issuer c = expectedIssuer v
            \<and> (\<forall>kid. Header token ''kid'' \<noteq> Some (JString kid)) \<longrightarrow>
            keyFunc env v token =
              (Inl (New ''unable to get kid header from token''), v, []))
       \<and> (\<forall>kid. Resource v \<in> set (elems (Audience c)) \<and> Issuer c = expectedIssuer v
            \<and> Header token ''kid'' = Some (JString kid) \<longrightarrow>
            keyFunc env v token =
              (case getKey env v kid of
                 (Inl err, v', evs) \<Rightarrow> (Inl (Wrap err ''unable to get public key''), v', evs)
               | (Inr pk, v', evs) \<Rightarrow> (Inr pk, v', evs)))
       \<and> (\<forall>p s. ParseUnverified p s = Inr token \<longrightarrow>
            (Resource v \<notin> set (elems (Audience c)) \<longrightarrow>
               VerifyToken p env v s =
                 (Inl (Errorf (''bad token: missing '%s' audience'') [S (Resource v)]), v, []))
          \<and> (Resource v \<in> set (elems (Audience c)) \<and> Issuer c \<noteq> expectedIssuer v \<longrightarrow>
               VerifyToken p env v s =
                 (Inl (Errorf issuerFormat [S (Issuer c), S (expectedIssuer v)]), v, []))
          \<and> (VerifySignature \<in> set (snd (snd (VerifyToken p env v s))) \<longrightarrow>
               Resource v \<in> set (elems (Audience c)) \<and> Issuer c = expectedIssuer v
               \<and> (\<exists>kid pk. Header token ''kid'' = Some (JString kid)
                     \<and> fst (getKey env v kid) = Inr pk)))"
proof -
  note aud = keyFunc_audience_error [OF claims, of v env]
  note iss = keyFunc_issuer_error [OF claims, of v env]
  note nokid = keyFunc_kid_error [OF claims, of v env]
  note res = keyFunc_resolves [OF claims, of v _ env]
  have sig: "Resource v \<in> set (elems (Audience c)) \<and> Issuer c = expectedIssuer v
               \<and> (\<exists>kid pk. Header token ''kid'' = Some (JString kid)
                     \<and> fst (getKey env v kid) = Inr pk)"
    if parse: "ParseUnverified p s = Inr token"
      and ran: "VerifySignature \<in> set (snd (snd (VerifyToken p env v s)))" for p s
  proof -
    from VerifyToken_signature_checked [OF parse ran keyFunc_no_signature]
    obtain pk where ok: "fst (keyFunc env v token) = Inr pk" by blast
    have a: "Resource v \<in> set (elems (Audience c))"
      using ok aud by (cases "Resource v \<in> set (elems (Audience c))") auto
    have i: "Issuer c = expectedIssuer v"
      using ok a iss by (cases "Issuer c = expectedIssuer v") auto
    have "\<exists>kid. Header token ''kid'' = Some (JString kid)"
      using ok a i nokid by (cases "\<exists>kid. Header token ''kid'' = Some (JString kid)") auto
    then obtain kid where k: "Header token ''kid'' = Some (JString kid)" by blast
    have "fst (getKey env v kid) = Inr pk"
      using ok res [OF a i k] by (auto split: prod.splits sum.splits)
    with a i k show ?thesis by blast
  qed
  show ?thesis
    using aud iss nokid res sig
      VerifyToken_keyFunc_error [where env = env and v = v and token = token]
    by (intro conjI allI impI) (blast+)
qed

theorem keyFunc_check_order_witness:
  "VerifyToken (acceptingParser (tokenOf [''https://svc-c''] ''https://redventures.auth0.com/''))
     (jwksWorld 200 1000) serviceB ''header.payload.signature'' =
     (Inl (Errorf (''bad token: missing '%s' audience'') [S ''https://svc-b'']), serviceB, [])
   \<and> VerifyToken (acceptingParser (tokenOf [''https://svc-b''] ''https://other.auth0.com/''))
     (jwksWorld 200 1000) serviceB ''header.payload.signature'' =
     (Inl (Errorf issuerFormat
        [S ''https://other.auth0.com/'', S ''https://redventures.auth0.com/'']), serviceB, [])"
proof -
  let ?t1 = "tokenOf [''https://svc-c''] ''https://redventures.auth0.com/''"
  let ?t2 = "tokenOf [''https://svc-b''] ''https://other.auth0.com/''"
  have exp: "expectedIssuer serviceB = ''https://redventures.auth0.com/''"
    by (simp add: expectedIssuer_def serviceB_def TrimRight_def)
  have c1: "jwt_Token.Claims ?t1 = CustomClaims (claimsOf [''https://svc-c''] ''https://redventures.auth0.com/'')"
    by (simp add: tokenOf_def)
  have c2: "jwt_Token.Claims ?t2 = CustomClaims (claimsOf [''https://svc-b''] ''https://other.auth0.com/'')"
    by (simp add: tokenOf_def)
  have p1: "ParseUnverified (acceptingParser ?t1) ''header.payload.signature'' = Inr ?t1"
    by (simp add: acceptingParser_def)
  have p2: "ParseUnverified (acceptingParser ?t2) ''header.payload.signature'' = Inr ?t2"
    by (simp add: acceptingParser_def)
  have a1: "Resource serviceB \<notin> set (elems (Audience (claimsOf [''https://svc-c''] ''https://redventures.auth0.com/'')))"
    by (simp add: serviceB_def claimsOf_def elems_def)
  have a2: "Resource serviceB \<in> set (elems (Audience (claimsOf [''https://svc-b''] ''https://other.auth0.com/'')))
      \<and> Issuer (claimsOf [''https://svc-b''] ''https://other.auth0.com/'') \<noteq> expectedIssuer serviceB"
    by (simp add: claimsOf_def elems_def exp) (simp add: serviceB_def)
  from keyFunc_check_order [OF c1, of serviceB "jwksWorld 200 1000"] p1 a1
  have "VerifyToken (acceptingParser ?t1) (jwksWorld 200 1000) serviceB ''header.payload.signature'' =
     (Inl (Errorf (''bad token: missing '%s' audience'') [S (Resource serviceB)]), serviceB, [])"
    by blast
  moreover
  from keyFunc_check_order [OF c2, of serviceB "jwksWorld 200 1000"] p2 a2
  have "VerifyToken (acceptingParser ?t2) (jwksWorld 200 1000) serviceB ''header.payload.signature'' =
     (Inl (Errorf issuerFormat
        [S (Issuer (claimsOf [''https://svc-b''] ''https://other.auth0.com/'')),
         S (expectedIssuer serviceB)]), serviceB, [])"
    by blast
  ultimately show ?thesis
    by (simp add: exp) (simp add: serviceB_def claimsOf_def)
qed

subsection \<open>The issuer check\<close>

text \<open>
  Claim C6. Once the audience is accepted, the key function fails with the issuer error,
  carrying the token's issuer and the expected one, when the two differ, and does not
  fail with an issuer error when they are equal. The expected issuer is the tenant URL
  without its trailing slashes (the tenant URL is that prefix followed by slashes only,
  and the prefix does not end in a slash) followed by one slash.
\<close>

theorem issuer_check_exact:
  assumes claims: "jwt_Token.Claims token = CustomClaims c"
    and aud: "verifyAudience v (elems (Audience c)) = None"
  shows "(Issuer c \<noteq> expectedIssuer v \<longrightarrow>
            keyFunc env v token =
              (Inl (Errorf issuerFormat [S (Issuer c), S (expectedIssuer v)]), v, []))
       \<and> (Issuer c = expectedIssuer v \<longrightarrow>
            (\<forall>args. fst (keyFunc env v token) \<noteq> Inl (Errorf issuerFormat args)))
       \<and> expectedIssuer v = TrimRight (Verifier.TenantURL v) ''/'' @ ''/''
       \<and> (\<exists>n. Verifier.TenantURL v = TrimRight (Verifier.TenantURL v) ''/'' @ replicate n CHR ''/'')
       \<and> (TrimRight (Verifier.TenantURL v) ''/'' = []
            \<or> last (TrimRight (Verifier.TenantURL v) ''/'') \<noteq> CHR ''/'')"
proof -
  have a: "Resource v \<in> set (elems (Audience c))"
    using aud by (simp add: verifyAudience_iff split: if_splits)
  have mismatch: "keyFunc env v token =
      (Inl (Errorf issuerFormat [S (Issuer c), S (expectedIssuer v)]), v, [])"
    if "Issuer c \<noteq> expectedIssuer v"
    using keyFunc_issuer_error [OF claims a that] .
  have match: "fst (keyFunc env v token) \<noteq> Inl (Errorf issuerFormat args)"
    if eq: "Issuer c = expectedIssuer v" for args
  proof (cases "\<exists>kid. Header token ''kid'' = Some (JString kid)")
    case True
    then obtain kid where "Header token ''kid'' = Some (JString kid)" by blast
    from keyFunc_resolves [OF claims a eq this, of env] show ?thesis
      by (auto split: prod.splits sum.splits)
  next
    case False
    then have "\<forall>kid. Header token ''kid'' \<noteq> Some (JString kid)" by blast
    from keyFunc_kid_error [OF claims a eq this, of env] show ?thesis by simp
  qed
  from mismatch match TrimRight_slash_decomp [of "Verifier.TenantURL v"]
    TrimRight_slash_last [of "Verifier.TenantURL v"]
  show ?thesis by (simp add: expectedIssuer_def)
qed

theorem issuer_check_exact_witness:
  "keyFunc (jwksWorld 200 1000) serviceB (tokenOf [''https://svc-b''] ''https://redventures.auth0.com'') =
     (Inl (Errorf issuerFormat
        [S ''https://redventures.auth0.com'', S ''https://redventures.auth0.com/'']), serviceB, [])
   \<and> expectedIssuer serviceB = ''https://redventures.auth0.com/''"
proof -
  let ?c = "claimsOf [''https://svc-b''] ''https://redventures.auth0.com''"
  have exp: "expectedIssuer serviceB = ''https://redventures.auth0.com/''"
    by (simp add: expectedIssuer_def serviceB_def TrimRight_def)
  have c: "jwt_Token.Claims (tokenOf [''https://svc-b''] ''https://redventures.auth0.com'') = CustomClaims ?c"
    by (simp add: tokenOf_def)
  have a: "verifyAudience serviceB (elems (Audience ?c)) = None"
    by (simp add: serviceB_def claimsOf_def elems_def)
  have ne: "Issuer ?c \<noteq> expectedIssuer serviceB"
    by (simp add: exp claimsOf_def)
  from issuer_check_exact [OF c a, of "jwksWorld 200 1000"] ne
  have "keyFunc (jwksWorld 200 1000) serviceB (tokenOf [''https://svc-b''] ''https://redventures.auth0.com'') =
     (Inl (Errorf issuerFormat [S (Issuer ?c), S (expectedIssuer serviceB)]), serviceB, [])"
    by blast
  then show ?thesis by (simp add: exp claimsOf_def)
qed

section \<open>Status codes of the two endpoints\<close>

lemma fetchToken_by_status:
  assumes "ClientID g \<noteq> []" "ClientSecret g \<noteq> []" "Granter.TenantURL g \<noteq> []"
    and "Post env (tokenURL g) ''application/json'' (tokenPayload g resource) = Inr resp"
  shows "fst (fetchToken env g resource) =
     (if StatusCode resp < 200 \<or> 400 \<le> StatusCode resp
      then Inl (Wrap (Errorf ''received %d status code'' [D (StatusCode resp)])
                  ''unable to fetch token'')
      else (case DecodeAccessToken env (Body resp) of
              Inl err \<Rightarrow> Inl (Wrap err ''bad Access Token Response'')
            | Inr atr \<Rightarrow> Inr (AccessToken atr)))"
  using assms by (simp add: fetchToken_def Let_def split: sum.splits)

lemma fetchKey_by_status:
  assumes "Get env (keyURL v) = Inr resp"
  shows "fst (fetchKey env v kid) =
     (if StatusCode resp < 200 \<or> 400 \<le> StatusCode resp
      then Inl (Errorf ''error fetching keys from Auth0: received %d status code''
                  [D (StatusCode resp)])
      else (case DecodeKeys env (Body resp) of
              Inl err \<Rightarrow> Inl err
            | Inr keys \<Rightarrow> fst (scanKeys env v kid keys)))"
  using assms by (simp add: fetchKey_def Let_def split: sum.splits prod.splits)

text \<open>
  Claim C1, as the code has it. When the token endpoint (on a cache miss, with the
  granter configured) or the JWKS endpoint (on a cache miss) answers with a status below
  200 or of at least 400, the call fails with the status error that carries the code. A
  status from 200 to 399, every 3xx included, passes the check: the outcome is then that
  of decoding the body.
\<close>

theorem status_outside_200_to_399_is_error:
  "(resource \<noteq> [] \<and> \<not> snd (readToken g (NowRead env) resource)
      \<and> ClientID g \<noteq> [] \<and> ClientSecret g \<noteq> [] \<and> Granter.TenantURL g \<noteq> []
      \<and> Post env (tokenURL g) ''application/json'' (tokenPayload g resource) = Inr resp \<longrightarrow>
      fst (GetToken env g resource) =
        (if StatusCode resp < 200 \<or> 400 \<le> StatusCode resp
         then Inl (Wrap (Errorf ''received %d status code'' [D (StatusCode resp)])
                     ''unable to fetch token'')
         else (case DecodeAccessToken env (Body resp) of
                 Inl err \<Rightarrow> Inl (Wrap err ''bad Access Token Response'')
               | Inr atr \<Rightarrow> Inr (AccessToken atr))))
   \<and> (readPublicKey v (NowLookup venv) kid = None \<and> Get venv (keyURL v) = Inr vresp \<longrightarrow>
      fst (getKey venv v kid) =
        (if StatusCode vresp < 200 \<or> 400 \<le> StatusCode vresp
         then Inl (Errorf ''error fetching keys from Auth0: received %d status code''
                     [D (StatusCode vresp)])
         else (case DecodeKeys venv (Body vresp) of
                 Inl err \<Rightarrow> Inl err
               | Inr keys \<Rightarrow> fst (scanKeys venv v kid keys))))"
proof (intro conjI impI)
  assume h: "resource \<noteq> [] \<and> \<not> snd (readToken g (NowRead env) resource)
      \<and> ClientID g \<noteq> [] \<and> ClientSecret g \<noteq> [] \<and> Granter.TenantURL g \<noteq> []
      \<and> Post env (tokenURL g) ''application/json'' (tokenPayload g resource) = Inr resp"
  then have "fst (GetToken env g resource) = fst (fetchToken env g resource)"
    by (simp add: GetToken_miss split: prod.splits)
  with h show "fst (GetToken env g resource) =
        (if StatusCode resp < 200 \<or> 400 \<le> StatusCode resp
         then Inl (Wrap (Errorf ''received %d status code'' [D (StatusCode resp)])
                     ''unable to fetch token'')
         else (case DecodeAccessToken env (Body resp) of
                 Inl err \<Rightarrow> Inl (Wrap err ''bad Access Token Response'')
               | Inr atr \<Rightarrow> Inr (AccessToken atr)))"
    using fetchToken_by_status [of g env resource resp] by simp
next
  assume h: "readPublicKey v (NowLookup venv) kid = None \<and> Get venv (keyURL v) = Inr vresp"
  then have "fst (getKey venv v kid) = fst (fetchKey venv v kid)"
    by (simp add: getKey_miss split: prod.splits)
  with h show "fst (getKey venv v kid) =
        (if StatusCode vresp < 200 \<or> 400 \<le> StatusCode vresp
         then Inl (Errorf ''error fetching keys from Auth0: received %d status code''
                     [D (StatusCode vresp)])
         else (case DecodeKeys venv (Body vresp) of
                 Inl err \<Rightarrow> Inl err
               | Inr keys \<Rightarrow> fst (scanKeys venv v kid keys)))"
    using fetchKey_by_status [of venv v vresp kid] by simp
qed

theorem status_outside_200_to_399_is_error_witness:
  "fst (GetToken (worldAt 404 1000) serviceA ''https://svc-b'') =
     Inl (Wrap (Errorf ''received %d status code'' [D 404]) ''unable to fetch token'')
   \<and> fst (getKey (jwksWorld 503 1000) serviceB ''key-1'') =
     Inl (Errorf ''error fetching keys from Auth0: received %d status code'' [D 503])"
proof -
  let ?r = "''https://svc-b''"
  have g: "?r \<noteq> [] \<and> \<not> snd (readToken serviceA (NowRead (worldAt 404 1000)) ?r)
      \<and> ClientID serviceA \<noteq> [] \<and> ClientSecret serviceA \<noteq> []
      \<and> Granter.TenantURL serviceA \<noteq> []
      \<and> Post (worldAt 404 1000) (tokenURL serviceA) ''application/json''
          (tokenPayload serviceA ?r) = Inr \<lparr>StatusCode = 404, Body = tokenBody\<rparr>"
    by (simp add: readToken_def serviceA_def worldAt_def tokenEndpoint_def)
  have v: "readPublicKey serviceB (NowLookup (jwksWorld 503 1000)) ''key-1'' = None
      \<and> Get (jwksWorld 503 1000) (keyURL serviceB) = Inr \<lparr>StatusCode = 503, Body = jwksBody\<rparr>"
    by (simp add: readPublicKey_def serviceB_def jwksWorld_def)
  from status_outside_200_to_399_is_error
         [of ?r serviceA "worldAt 404 1000" "\<lparr>StatusCode = 404, Body = tokenBody\<rparr>"
             serviceB "jwksWorld 503 1000" "''key-1''" "\<lparr>StatusCode = 503, Body = jwksBody\<rparr>"]
       g v
  show ?thesis by simp
qed

text \<open>
  Claim C1 as stated fails: an answer with status 300 and a token body makes \<^verbatim>\<open>GetToken\<close>
  return the token, and one with a key set makes key resolution return the key.
\<close>

theorem status_300_is_accepted:
  "fst (GetToken (worldAt 300 1000) serviceA ''https://svc-b'') = Inr ''tok1''
   \<and> fst (getKey (jwksWorld 300 1000) serviceB ''key-1'') = Inr publicKey1"
  by (simp add: GetToken_def readToken_def Do_def fetchToken_def Let_def
        worldAt_def tokenEndpoint_def decodeTokenBody_def serviceA_def
        getKey_def readPublicKey_def serviceB_def fetchKey_def
        jwksWorld_def decodeJwksBody_def jwksKeys_def parsePem_def)

section \<open>Properties of the JSON form of an audience list\<close>

subsection \<open>Strings as UTF-8 text\<close>

lemma validFrom_coerce: "validFrom n s \<Longrightarrow> coerceFrom n s = s"
  by (induction n s rule: coerceFrom.induct) (auto split: nat.splits)

lemma runeLen_le: "runeLen s \<le> length s"
  by (cases s) (auto simp: Let_def split: list.splits)

lemma runeLen_prefix:
  "runeLen (b # bs) = Suc k \<Longrightarrow> runeLen (b # take k bs @ X) = Suc k"
  by (auto simp: Let_def split: list.splits if_splits)

lemma coerceFrom_take:
  "k \<le> length bs \<Longrightarrow> coerceFrom k bs = take k bs @ coerceFrom 0 (drop k bs)"
  by (induction k bs rule: coerceFrom.induct) auto

lemma runeLen_replacement: "runeLen (replacementChar @ X) = 3"
  by (simp add: replacementChar_def byte_def isCont_def accept2_def)

lemma validFrom_replacement: "validFrom 0 (replacementChar @ X) = validFrom 0 X"
  using runeLen_replacement [of X] by (simp add: replacementChar_def numeral_3_eq_3)

lemma valid_coerceFrom: "validFrom n (coerceFrom n s)"
proof (induction n s rule: coerceFrom.induct)
  case (1 n)
  then show ?case by simp
next
  case (2 n b bs)
  then show ?case by simp
next
  case (3 b bs)
  show ?case
  proof (cases "runeLen (b # bs)")
    case 0
    with 3 show ?thesis by (simp add: validFrom_replacement)
  next
    case (Suc k)
    have "Suc k \<le> length (b # bs)" using runeLen_le [of "b # bs"] Suc by simp
    then have k: "k \<le> length bs" by simp
    have "runeLen (b # coerceFrom k bs) = Suc k"
      using runeLen_prefix [OF Suc] coerceFrom_take [OF k] by simp
    with 3 Suc show ?thesis by simp
  qed
qed

lemma ToValidUTF8_valid: "ValidString (ToValidUTF8 s)"
  by (simp add: ValidString_def ToValidUTF8_def valid_coerceFrom)

lemma ToValidUTF8_id: "ValidString s \<Longrightarrow> ToValidUTF8 s = s"
  by (simp add: ValidString_def ToValidUTF8_def validFrom_coerce)

lemma ToValidUTF8_idem: "ToValidUTF8 (ToValidUTF8 s) = ToValidUTF8 s"
  by (simp add: ToValidUTF8_id ToValidUTF8_valid)

lemma map_ToValidUTF8_id: "\<forall>x \<in> set xs. ValidString x \<Longrightarrow> map ToValidUTF8 xs = xs"
  by (induction xs) (auto simp: ToValidUTF8_id)

subsection \<open>Encoding and decoding\<close>

lemma UnmarshalElems_strings:
  "UnmarshalElems (map (\<lambda>s. JString (ToValidUTF8 s)) xs) = Inr (map ToValidUTF8 xs)"
  by (induction xs) (auto simp: ToValidUTF8_idem)

lemma MarshalJSON_many:
  "2 \<le> length xs \<Longrightarrow>
   MarshalJSON (Some xs) = Inr (JArray (map (\<lambda>s. JString (ToValidUTF8 s)) xs))"
  by (simp add: MarshalJSON_def MarshalStrings_def elems_def)

lemma encodeDecode_many:
  "2 \<le> length xs \<Longrightarrow> encodeDecode (Some xs) = Inr (Some (map ToValidUTF8 xs))"
  by (simp add: encodeDecode_def MarshalJSON_many UnmarshalJSON_def UnmarshalElems_strings)

text \<open>
  Claim C5, as the code has it. \<^verbatim>\<open>MarshalJSON\<close> of a one-element list is a bare JSON
  string and \<^verbatim>\<open>UnmarshalJSON\<close> of a bare JSON string is a one-element list, the string
  being written and read with U+FFFD in the place of every byte that is not part of
  well-formed UTF-8 (so unchanged when it is valid UTF-8). A list of two or more elements
  is encoded as the JSON array of its strings, written the same way; decoding that array
  gives the list with those bytes replaced, which is the original list when all its
  elements are valid UTF-8.
\<close>

theorem AudienceList_json_round_trip:
  "MarshalJSON (Some [a]) = Inr (JString (ToValidUTF8 a))
   \<and> (ValidString a \<longrightarrow> MarshalJSON (Some [a]) = Inr (JString a))
   \<and> UnmarshalJSON (JString s) = Inr (Some [ToValidUTF8 s])
   \<and> (ValidString s \<longrightarrow> UnmarshalJSON (JString s) = Inr (Some [s]))
   \<and> (2 \<le> length xs \<longrightarrow>
        MarshalJSON (Some xs) = Inr (JArray (map (\<lambda>x. JString (ToValidUTF8 x)) xs))
        \<and> encodeDecode (Some xs) = Inr (Some (map ToValidUTF8 xs))
        \<and> ((\<forall>x \<in> set xs. ValidString x) \<longrightarrow>
              MarshalJSON (Some xs) = Inr (JArray (map JString xs))
              \<and> encodeDecode (Some xs) = Inr (Some xs)))"
proof -
  have one: "MarshalJSON (Some [a]) = Inr (JString (ToValidUTF8 a))"
    by (simp add: MarshalJSON_def MarshalString_def elems_def)
  have str: "UnmarshalJSON (JString s) = Inr (Some [ToValidUTF8 s])"
    by (simp add: UnmarshalJSON_def)
  have many: "MarshalJSON (Some xs) = Inr (JArray (map JString xs))
              \<and> encodeDecode (Some xs) = Inr (Some xs)"
    if len: "2 \<le> length xs" and valid: "\<forall>x \<in> set xs. ValidString x"
  proof -
    have "map (\<lambda>x. JString (ToValidUTF8 x)) xs = map JString xs"
      using valid by (induction xs) (auto simp: ToValidUTF8_id)
    with MarshalJSON_many [OF len] encodeDecode_many [OF len] map_ToValidUTF8_id [OF valid]
    show ?thesis by simp
  qed
  from one str many MarshalJSON_many [of xs] encodeDecode_many [of xs]
  show ?thesis by (auto simp: ToValidUTF8_id)
qed

theorem AudienceList_json_round_trip_witness:
  "MarshalJSON (Some [''https://svc-b'']) = Inr (JString ''https://svc-b'')
   \<and> UnmarshalJSON (JString ''https://svc-b'') = Inr (Some [''https://svc-b''])
   \<and> MarshalJSON (Some [''https://svc-b'', ''https://svc-c'']) =
       Inr (JArray [JString ''https://svc-b'', JString ''https://svc-c''])
   \<and> encodeDecode (Some [''https://svc-b'', ''https://svc-c'']) =
       Inr (Some [''https://svc-b'', ''https://svc-c''])"
proof -
  have b: "ValidString ''https://svc-b''"
    by (simp add: ValidString_def byte_def)
  have c: "ValidString ''https://svc-c''"
    by (simp add: ValidString_def byte_def)
  have len: "2 \<le> length [''https://svc-b'', ''https://svc-c'']"
    and all: "\<forall>x \<in> set [''https://svc-b'', ''https://svc-c'']. ValidString x"
    using b c by simp_all
  note th = AudienceList_json_round_trip
         [of "''https://svc-b''" "''https://svc-b''" "[''https://svc-b'', ''https://svc-c'']"]
  from th b have one: "MarshalJSON (Some [''https://svc-b'']) = Inr (JString ''https://svc-b'')"
    by blast
  from th b have str: "UnmarshalJSON (JString ''https://svc-b'') = Inr (Some [''https://svc-b''])"
    by blast
  from th len all have many:
    "MarshalJSON (Some [''https://svc-b'', ''https://svc-c'']) =
       Inr (JArray (map JString [''https://svc-b'', ''https://svc-c'']))
     \<and> encodeDecode (Some [''https://svc-b'', ''https://svc-c'']) =
       Inr (Some [''https://svc-b'', ''https://svc-c''])"
    by blast
  from one str many show ?thesis by simp
qed

text \<open>
  Claim C5 as stated fails: a list of two elements whose first is the single byte
  \<^verbatim>\<open>0xFF\<close> is encoded as an array whose first string is U+FFFD, and decoding returns that
  list and not the original one.
\<close>

theorem AudienceList_round_trip_replaces_invalid_bytes:
  "MarshalJSON (Some [[CHR 0xFF], ''b'']) =
     Inr (JArray [JString [CHR 0xEF, CHR 0xBF, CHR 0xBD], JString ''b''])
   \<and> encodeDecode (Some [[CHR 0xFF], ''b'']) =
     Inr (Some [[CHR 0xEF, CHR 0xBF, CHR 0xBD], ''b''])
   \<and> encodeDecode (Some [[CHR 0xFF], ''b'']) \<noteq> Inr (Some [[CHR 0xFF], ''b''])"
  by (simp add: encodeDecode_def MarshalJSON_def MarshalStrings_def elems_def
        UnmarshalJSON_def ToValidUTF8_def byte_def replacementChar_def
        isCont_def accept2_def eval_nat_numeral)

end
